theory Spec2Isabelle
  imports Complex_Main
begin

section \<open>The question-answering pipeline of \<open>wiki_app.py\<close>\<close>

text \<open>
  The program is one Streamlit script. Its core is the function
  \<open>retrieve_and_generate\<close> (lines 16 to 63): it asks the search backend for the chunks that
  match the question (a hybrid search), builds a context string from them, asks the backend
  for a generated answer, and returns the answer with one source entry per retrieved chunk.
  The lines 80 to 99 are the caller: the button handler that guards the call and displays
  the result or the error.

  The backend (the Weaviate client) is not part of the program. It is a parameter of the
  model: a record of functions over a backend state \<open>'s\<close>, each returning either the
  exception it raises or its reply, with the state that follows. The model threads that
  state through the calls in the order of the source and logs every call of the client, so
  that statements about which requests are issued, and how many, are statements about the
  log.
\<close>

subsection \<open>Values, exceptions and the data of the backend\<close>

text \<open>
  The values stored under a property of a retrieved object, as far as the program looks at
  them: text, an integer, or \<open>None\<close>. The program only formats and forwards them.
\<close>

datatype pyval = PStr string | PInt int | PNone

text \<open>
  The exceptions of the model: the \<open>KeyError\<close> of a dictionary subscript with a missing
  key, and whatever the client raises (network, authentication, schema), carried with its
  message.
\<close>

datatype py_exception = KeyError string | BackendException string

text \<open>
  An object of a query reply has \<open>properties\<close>, a dictionary, and \<open>metadata\<close>, whose
  \<open>distance\<close> is an optional float. No arithmetic is done on the distance: its type is the
  parameter \<open>'d\<close>.
\<close>

record 'd metadata_return =
  metadata_distance :: "'d option"

record 'd weaviate_object =
  properties :: "string \<rightharpoonup> pyval"
  metadata :: "'d metadata_return"

record 'd query_return =
  objects :: "'d weaviate_object list"

record generative_return =
  generated :: "string option"

text \<open>
  The collection handle \<open>wiki_chunks\<close> with the two methods the program calls,
  \<open>query.hybrid\<close> (query, limit, return_metadata, return_properties) and
  \<open>generate.near_text\<close> (query, grouped_task), and the client with \<open>collections.get\<close>.
\<close>

record ('s, 'd) collection =
  hybrid :: "string \<Rightarrow> int \<Rightarrow> string list \<Rightarrow> string list \<Rightarrow> 's
               \<Rightarrow> (py_exception + 'd query_return) \<times> 's"
  near_text :: "string \<Rightarrow> string \<Rightarrow> 's \<Rightarrow> (py_exception + generative_return) \<times> 's"

record ('s, 'd) client =
  collections_get :: "string \<Rightarrow> 's \<Rightarrow> (py_exception + ('s, 'd) collection) \<times> 's"

subsection \<open>The result\<close>

text \<open>
  The dictionary that \<open>retrieve_and_generate\<close> returns: \<open>"answer"\<close> and \<open>"sources"\<close>, each
  source a dictionary with the keys \<open>"title"\<close>, \<open>"chunk_number"\<close> and \<open>"distance"\<close>.
\<close>

record 'd source =
  title :: pyval
  chunk_number :: pyval
  distance :: "'d option"

record 'd answer_result =
  answer :: "string option"
  sources :: "'d source list"

subsection \<open>The world: backend state, request log, cache\<close>

text \<open>
  The calls of the client, as logged by the model, with their arguments.
\<close>

datatype call =
    CollectionsGet string
  | Hybrid string int "string list" "string list"
  | GenerateNearText string string

text \<open>
  \<open>requests\<close> is the log, oldest call first. \<open>cache\<close> is the store of the decorator
  \<open>@st.cache_resource\<close> of line 12, which applies to \<open>retrieve_and_generate\<close>: its key is
  the pair of the hashed arguments, \<open>query\<close> and \<open>num_chunks\<close> (the parameter \<open>_client\<close>
  is left out of the key by its leading underscore).
\<close>

record ('s, 'd) world =
  backend_state :: 's
  requests :: "call list"
  cache :: "(string \<times> int) \<rightharpoonup> 'd answer_result"

definition call_collections_get ::
  "('s, 'd) client \<Rightarrow> string \<Rightarrow> ('s, 'd) world
     \<Rightarrow> (py_exception + ('s, 'd) collection) \<times> ('s, 'd) world" where
  "call_collections_get c name w =
     (case collections_get c name (backend_state w) of
        (r, s') \<Rightarrow> (r, w\<lparr>backend_state := s', requests := requests w @ [CollectionsGet name]\<rparr>))"

definition call_hybrid ::
  "('s, 'd) collection \<Rightarrow> string \<Rightarrow> int \<Rightarrow> string list \<Rightarrow> string list \<Rightarrow> ('s, 'd) world
     \<Rightarrow> (py_exception + 'd query_return) \<times> ('s, 'd) world" where
  "call_hybrid coll q limit return_metadata return_properties w =
     (case hybrid coll q limit return_metadata return_properties (backend_state w) of
        (r, s') \<Rightarrow>
          (r, w\<lparr>backend_state := s',
                requests := requests w @ [Hybrid q limit return_metadata return_properties]\<rparr>))"

definition call_near_text ::
  "('s, 'd) collection \<Rightarrow> string \<Rightarrow> string \<Rightarrow> ('s, 'd) world
     \<Rightarrow> (py_exception + generative_return) \<times> ('s, 'd) world" where
  "call_near_text coll q grouped_task w =
     (case near_text coll q grouped_task (backend_state w) of
        (r, s') \<Rightarrow>
          (r, w\<lparr>backend_state := s', requests := requests w @ [GenerateNearText q grouped_task]\<rparr>))"

subsection \<open>Formatting\<close>

definition newline :: string where
  "newline = [CHR 0x0A]"

definition apostrophe :: string where
  "apostrophe = [CHR 0x27]"

text \<open>Python's \<open>str\<close> of an integer: decimal digits, a minus sign before a negative one.\<close>

definition digit_char :: "nat \<Rightarrow> char" where
  "digit_char d = ''0123456789'' ! d"

fun str_nat :: "nat \<Rightarrow> string" where
  "str_nat n = (if n < 10 then [digit_char n] else str_nat (n div 10) @ [digit_char (n mod 10)])"

declare str_nat.simps [simp del]

definition str_int :: "int \<Rightarrow> string" where
  "str_int i = (if i < 0 then CHR ''-'' # str_nat (nat (- i)) else str_nat (nat i))"

text \<open>What a replacement field of an f-string puts for a value.\<close>

fun py_format :: "pyval \<Rightarrow> string" where
  "py_format (PStr s) = s"
| "py_format (PInt i) = str_int i"
| "py_format PNone = ''None''"

text \<open>\<open>sep.join(xs)\<close>.\<close>

fun join :: "string \<Rightarrow> string list \<Rightarrow> string" where
  "join sep [] = []"
| "join sep [x] = x"
| "join sep (x # y # ys) = x @ sep @ join sep (y # ys)"

text \<open>\<open>d[k]\<close>: the value, or \<open>KeyError\<close>.\<close>

definition subscript :: "(string \<rightharpoonup> pyval) \<Rightarrow> string \<Rightarrow> py_exception + pyval" where
  "subscript d k = (case d k of None \<Rightarrow> Inl (KeyError k) | Some v \<Rightarrow> Inr v)"

text \<open>
  A list comprehension whose element expression may raise: the elements are evaluated from
  left to right, and the first exception ends the evaluation.
\<close>

fun comprehension :: "('a \<Rightarrow> py_exception + 'b) \<Rightarrow> 'a list \<Rightarrow> py_exception + 'b list" where
  "comprehension f [] = Inr []"
| "comprehension f (x # xs) =
     (case f x of
        Inl e \<Rightarrow> Inl e
      | Inr y \<Rightarrow> (case comprehension f xs of Inl e \<Rightarrow> Inl e | Inr ys \<Rightarrow> Inr (y # ys)))"

subsection \<open>\<open>retrieve_and_generate\<close>\<close>

text \<open>
  Line 43, the f-string of one object. Its fields are evaluated in the order they are
  written: \<open>title\<close>, \<open>chunk_number\<close>, \<open>chunk\<close>.
\<close>

definition context_entry :: "'d weaviate_object \<Rightarrow> py_exception + string" where
  "context_entry obj =
     (case subscript (properties obj) ''title'' of
        Inl e \<Rightarrow> Inl e
      | Inr t \<Rightarrow>
     (case subscript (properties obj) ''chunk_number'' of
        Inl e \<Rightarrow> Inl e
      | Inr n \<Rightarrow>
     (case subscript (properties obj) ''chunk'' of
        Inl e \<Rightarrow> Inl e
      | Inr ch \<Rightarrow>
          Inr (''From '' @ apostrophe @ py_format t @ apostrophe @ '' (chunk '' @ py_format n
                 @ ''):'' @ newline @ py_format ch))))"

text \<open>Lines 42 to 45.\<close>

definition format_context :: "'d weaviate_object list \<Rightarrow> py_exception + string" where
  "format_context results =
     (case comprehension context_entry results of
        Inl e \<Rightarrow> Inl e
      | Inr entries \<Rightarrow> Inr (join (newline @ newline) entries))"

text \<open>Lines 56 to 60, the dictionary of one source.\<close>

definition source_entry :: "'d weaviate_object \<Rightarrow> py_exception + 'd source" where
  "source_entry obj =
     (case subscript (properties obj) ''title'' of
        Inl e \<Rightarrow> Inl e
      | Inr t \<Rightarrow>
     (case subscript (properties obj) ''chunk_number'' of
        Inl e \<Rightarrow> Inl e
      | Inr n \<Rightarrow>
          Inr \<lparr>title = t, chunk_number = n, distance = metadata_distance (metadata obj)\<rparr>))"

text \<open>Line 50, the text before the question in \<open>grouped_task\<close>.\<close>

definition grounding_directive :: string where
  "grounding_directive =
     ''Please answer the following question based on the context. ''
     @ ''If the answer cannot be found in the context, say so clearly. ''
     @ ''Always cite the specific parts of the context you used.''
     @ newline @ newline @ ''Question: ''"

text \<open>
  The body of \<open>retrieve_and_generate\<close>, lines 31 to 63. The value \<open>context\<close> is bound and
  not used afterwards, as in the source.
\<close>

definition retrieve_and_generate ::
  "string \<Rightarrow> ('s, 'd) client \<Rightarrow> int \<Rightarrow> ('s, 'd) world
     \<Rightarrow> (py_exception + 'd answer_result) \<times> ('s, 'd) world" where
  "retrieve_and_generate query cl num_chunks w0 =
     (case call_collections_get cl ''WikiChunk'' w0 of
        (Inl e, w1) \<Rightarrow> (Inl e, w1)
      | (Inr wiki_chunks, w1) \<Rightarrow>
     (case call_hybrid wiki_chunks query num_chunks [''distance'']
             [''title'', ''chunk'', ''chunk_number''] w1 of
        (Inl e, w2) \<Rightarrow> (Inl e, w2)
      | (Inr reply, w2) \<Rightarrow>
     (let results = objects reply in
     (case format_context results of
        Inl e \<Rightarrow> (Inl e, w2)
      | Inr context \<Rightarrow>
     (case call_near_text wiki_chunks query (grounding_directive @ query) w2 of
        (Inl e, w3) \<Rightarrow> (Inl e, w3)
      | (Inr generate_response, w3) \<Rightarrow>
     (case comprehension source_entry results of
        Inl e \<Rightarrow> (Inl e, w3)
      | Inr srcs \<Rightarrow>
          (Inr \<lparr>answer = generated generate_response, sources = srcs\<rparr>, w3)))))))"

text \<open>
  The name \<open>retrieve_and_generate\<close> as the script binds it, under the decorator of line 12:
  a call whose key is in the cache returns the stored result and does not run the body; a
  call that returns stores its result; a call that raises stores nothing.
\<close>

definition retrieve_and_generate_cached ::
  "string \<Rightarrow> ('s, 'd) client \<Rightarrow> int \<Rightarrow> ('s, 'd) world
     \<Rightarrow> (py_exception + 'd answer_result) \<times> ('s, 'd) world" where
  "retrieve_and_generate_cached query cl num_chunks w =
     (case cache w (query, num_chunks) of
        Some r \<Rightarrow> (Inr r, w)
      | None \<Rightarrow>
         (case retrieve_and_generate query cl num_chunks w of
            (Inl e, w') \<Rightarrow> (Inl e, w')
          | (Inr r, w') \<Rightarrow> (Inr r, w'\<lparr>cache := (cache w')((query, num_chunks) \<mapsto> r)\<rparr>)))"

subsection \<open>The caller: the button handler\<close>





subsection \<open>Observations and comparison definitions\<close>

text \<open>
  The objects that the retrieval step of a call hands to the rest of the function: the
  \<open>objects\<close> of the reply of the hybrid search (lines 31 to 39), and no object when the
  step raises.
\<close>

definition retrieved_objects ::
  "string \<Rightarrow> ('s, 'd) client \<Rightarrow> int \<Rightarrow> ('s, 'd) world \<Rightarrow> 'd weaviate_object list" where
  "retrieved_objects query cl num_chunks w0 =
     (case call_collections_get cl ''WikiChunk'' w0 of
        (Inl e, w1) \<Rightarrow> []
      | (Inr wiki_chunks, w1) \<Rightarrow>
     (case call_hybrid wiki_chunks query num_chunks [''distance'']
             [''title'', ''chunk'', ''chunk_number''] w1 of
        (Inl e, w2) \<Rightarrow> []
      | (Inr reply, w2) \<Rightarrow> objects reply))"

text \<open>An object that has the three properties the program reads.\<close>

definition has_chunk_fields :: "'d weaviate_object \<Rightarrow> bool" where
  "has_chunk_fields obj \<longleftrightarrow>
     properties obj ''title'' \<noteq> None \<and> properties obj ''chunk_number'' \<noteq> None
     \<and> properties obj ''chunk'' \<noteq> None"


text \<open>
  The context block in the words of the specification: each record is the label
  \<open>From '<title>' (chunk <chunk_number>):\<close>, a newline and the chunk text; records are
  separated by a blank line. A record is given by the three texts that fill the label.
\<close>

definition chunk_label :: "string \<Rightarrow> string \<Rightarrow> string" where
  "chunk_label t n = ''From '' @ apostrophe @ t @ apostrophe @ '' (chunk '' @ n @ ''):''"

fun context_block :: "(string \<times> string \<times> string) list \<Rightarrow> string" where
  "context_block [] = []"
| "context_block [(t, n, txt)] = chunk_label t n @ newline @ txt"
| "context_block ((t, n, txt) # r # rs) =
     chunk_label t n @ newline @ txt @ newline @ newline @ context_block (r # rs)"

definition chunk_texts :: "'d weaviate_object \<Rightarrow> string \<times> string \<times> string" where
  "chunk_texts obj =
     (py_format (the (properties obj ''title'')),
      py_format (the (properties obj ''chunk_number'')),
      py_format (the (properties obj ''chunk'')))"


text \<open>
  A backend is deterministic when the reply of each call is a function of the arguments of
  the call, whatever the state of the backend.
\<close>

definition deterministic_collection :: "('s, 'd) collection \<Rightarrow> bool" where
  "deterministic_collection coll \<longleftrightarrow>
     (\<forall>q n md ps s s'. fst (hybrid coll q n md ps s) = fst (hybrid coll q n md ps s'))
     \<and> (\<forall>q t s s'. fst (near_text coll q t s) = fst (near_text coll q t s'))"

definition deterministic_client :: "('s, 'd) client \<Rightarrow> bool" where
  "deterministic_client cl \<longleftrightarrow>
     (\<forall>name s s'. fst (collections_get cl name s) = fst (collections_get cl name s'))
     \<and> (\<forall>name s coll. fst (collections_get cl name s) = Inr coll
           \<longrightarrow> deterministic_collection coll)"



subsection \<open>Stub backends and example data\<close>

text \<open>
  A stub whose hybrid search and generation return fixed replies and leave the state as it
  is, and the chunks and the generated text of the example scenario of the specification.
\<close>

definition stub_collection ::
  "(py_exception + 'd query_return) \<Rightarrow> (py_exception + generative_return) \<Rightarrow> ('s, 'd) collection"
  where
  "stub_collection found gen =
     \<lparr>hybrid = (\<lambda>q n md ps s. (found, s)), near_text = (\<lambda>q t s. (gen, s))\<rparr>"

definition stub_client ::
  "(py_exception + 'd query_return) \<Rightarrow> (py_exception + generative_return) \<Rightarrow> ('s, 'd) client"
  where
  "stub_client found gen = \<lparr>collections_get = (\<lambda>name s. (Inr (stub_collection found gen), s))\<rparr>"

definition election_chunk :: "real weaviate_object" where
  "election_chunk =
     \<lparr>properties = [''title'' \<mapsto> PStr ''2024 US Election'',
                    ''chunk'' \<mapsto> PStr ''...held November 5, 2024...'',
                    ''chunk_number'' \<mapsto> PInt 3],
      metadata = \<lparr>metadata_distance = Some 0.12\<rparr>\<rparr>"

definition election_day_chunk :: "real weaviate_object" where
  "election_day_chunk =
     \<lparr>properties = [''title'' \<mapsto> PStr ''Election Day'',
                    ''chunk'' \<mapsto> PStr ''...federal election day...'',
                    ''chunk_number'' \<mapsto> PInt 1],
      metadata = \<lparr>metadata_distance = Some 0.30\<rparr>\<rparr>"


definition election_answer :: generative_return where
  "election_answer = \<lparr>generated = Some ''The election is held on November 5, 2024.''\<rparr>"

definition election_client :: "(unit, real) client" where
  "election_client =
     stub_client (Inr \<lparr>objects = [election_chunk, election_day_chunk]\<rparr>) (Inr election_answer)"

definition fresh_world :: "(unit, real) world" where
  "fresh_world = \<lparr>backend_state = (), requests = [], cache = Map.empty\<rparr>"

definition election_question :: string where
  "election_question = ''When is the election?''"

definition election_day_client :: "(unit, real) client" where
  "election_day_client =
     stub_client (Inr \<lparr>objects = [election_day_chunk]\<rparr>) (Inr election_answer)"


definition failing_client :: "(unit, real) client" where
  "failing_client = stub_client (Inl (BackendException ''connection reset'')) (Inr election_answer)"



text \<open>The collection handles that the two stubs above hand out.\<close>

definition failing_collection :: "(unit, real) collection" where
  "failing_collection =
     stub_collection (Inl (BackendException ''connection reset'')) (Inr election_answer)"


definition election_result :: "real answer_result" where
  "election_result =
     \<lparr>answer = Some ''The election is held on November 5, 2024.'',
      sources =
        [\<lparr>title = PStr ''2024 US Election'', chunk_number = PInt 3, distance = Some 0.12\<rparr>,
         \<lparr>title = PStr ''Election Day'', chunk_number = PInt 1, distance = Some 0.30\<rparr>]\<rparr>"

definition election_context :: string where
  "election_context =
     ''From '' @ apostrophe @ ''2024 US Election'' @ apostrophe @ '' (chunk 3):'' @ newline
     @ ''...held November 5, 2024...'' @ newline @ newline
     @ ''From '' @ apostrophe @ ''Election Day'' @ apostrophe @ '' (chunk 1):'' @ newline
     @ ''...federal election day...''"

text \<open>The log of a run in which every step is reached.\<close>

definition full_run :: "string \<Rightarrow> int \<Rightarrow> call list" where
  "full_run q n =
     [CollectionsGet ''WikiChunk'',
      Hybrid q n [''distance''] [''title'', ''chunk'', ''chunk_number''],
      GenerateNearText q (grounding_directive @ q)]"

definition election_world :: "(unit, real) world" where
  "election_world =
     \<lparr>backend_state = (), requests = full_run election_question 2, cache = Map.empty\<rparr>"

section \<open>Properties\<close>

subsection \<open>Comprehensions, subscripts and the two formatters\<close>


lemma comprehension_length:
  "comprehension f xs = Inr ys \<Longrightarrow> length ys = length xs"
  by (induction xs arbitrary: ys) (auto split: sum.splits)


lemma comprehension_total:
  "list_all (\<lambda>x. f x = Inr (g x)) xs \<Longrightarrow> comprehension f xs = Inr (map g xs)"
  by (induction xs) auto

lemma subscript_Some: "d k = Some v \<Longrightarrow> subscript d k = Inr v"
  by (simp add: subscript_def)

lemma subscript_Inr: "subscript d k = Inr v \<longleftrightarrow> d k = Some v"
  by (simp add: subscript_def split: option.splits)




lemma context_entry_fields:
  "has_chunk_fields obj \<Longrightarrow>
     context_entry obj =
       Inr (case chunk_texts obj of (t, n, txt) \<Rightarrow> chunk_label t n @ newline @ txt)"
  by (auto simp: has_chunk_fields_def context_entry_def chunk_texts_def chunk_label_def
        subscript_def)



lemma join_context_block:
  "join (newline @ newline)
     (map (\<lambda>obj. case chunk_texts obj of (t, n, txt) \<Rightarrow> chunk_label t n @ newline @ txt) objs)
   = context_block (map chunk_texts objs)"
  by (induction objs rule: induct_list012) (auto split: prod.splits)

lemma format_context_fields:
  assumes "list_all has_chunk_fields objs"
  shows "format_context objs = Inr (context_block (map chunk_texts objs))"
proof -
  have "list_all (\<lambda>obj. context_entry obj =
          Inr (case chunk_texts obj of (t, n, txt) \<Rightarrow> chunk_label t n @ newline @ txt)) objs"
    using assms by (simp add: list_all_iff context_entry_fields)
  then have "comprehension context_entry objs =
      Inr (map (\<lambda>obj. case chunk_texts obj of (t, n, txt) \<Rightarrow> chunk_label t n @ newline @ txt) objs)"
    by (rule comprehension_total)
  then show ?thesis
    by (simp add: format_context_def join_context_block)
qed






lemma cache_retrieve_and_generate:
  "cache (snd (retrieve_and_generate q cl n w)) = cache w"
  by (simp add: retrieve_and_generate_def call_collections_get_def call_hybrid_def
        call_near_text_def Let_def split: prod.splits sum.splits)

lemma retrieve_and_generate_result:
  "fst (retrieve_and_generate q cl n w) =
     (case collections_get cl ''WikiChunk'' (backend_state w) of
        (Inl e, s1) \<Rightarrow> Inl e
      | (Inr coll, s1) \<Rightarrow>
     (case hybrid coll q n [''distance''] [''title'', ''chunk'', ''chunk_number''] s1 of
        (Inl e, s2) \<Rightarrow> Inl e
      | (Inr reply, s2) \<Rightarrow>
     (case format_context (objects reply) of
        Inl e \<Rightarrow> Inl e
      | Inr ctx \<Rightarrow>
     (case near_text coll q (grounding_directive @ q) s2 of
        (Inl e, s3) \<Rightarrow> Inl e
      | (Inr g, s3) \<Rightarrow>
     (case comprehension source_entry (objects reply) of
        Inl e \<Rightarrow> Inl e
      | Inr srcs \<Rightarrow> Inr \<lparr>answer = generated g, sources = srcs\<rparr>)))))"
  by (simp add: retrieve_and_generate_def call_collections_get_def call_hybrid_def
        call_near_text_def Let_def split: prod.splits sum.splits)

lemma deterministic_result:
  assumes det: "deterministic_client cl"
  shows "fst (retrieve_and_generate q cl n w) = fst (retrieve_and_generate q cl n w')"
proof -
  obtain a s1 where cg: "collections_get cl ''WikiChunk'' (backend_state w) = (a, s1)"
    by (cases "collections_get cl ''WikiChunk'' (backend_state w)")
  obtain a' s1' where cg': "collections_get cl ''WikiChunk'' (backend_state w') = (a', s1')"
    by (cases "collections_get cl ''WikiChunk'' (backend_state w')")
  have a: "a' = a"
    using det cg cg' unfolding deterministic_client_def by (metis fst_conv)
  show ?thesis
  proof (cases a)
    case (Inl e)
    then show ?thesis
      using cg cg' a by (simp add: retrieve_and_generate_result)
  next
    case (Inr coll)
    then have dc: "deterministic_collection coll"
      using det cg unfolding deterministic_client_def by (metis fst_conv)
    obtain h s2 where hy:
      "hybrid coll q n [''distance''] [''title'', ''chunk'', ''chunk_number''] s1 = (h, s2)"
      by (cases "hybrid coll q n [''distance''] [''title'', ''chunk'', ''chunk_number''] s1")
    obtain h' s2' where hy':
      "hybrid coll q n [''distance''] [''title'', ''chunk'', ''chunk_number''] s1' = (h', s2')"
      by (cases "hybrid coll q n [''distance''] [''title'', ''chunk'', ''chunk_number''] s1'")
    have h: "h' = h"
      using dc hy hy' unfolding deterministic_collection_def by (metis fst_conv)
    obtain g s3 where ge: "near_text coll q (grounding_directive @ q) s2 = (g, s3)"
      by (cases "near_text coll q (grounding_directive @ q) s2")
    obtain g' s3' where ge': "near_text coll q (grounding_directive @ q) s2' = (g', s3')"
      by (cases "near_text coll q (grounding_directive @ q) s2'")
    have g: "g' = g"
      using dc ge ge' unfolding deterministic_collection_def by (metis fst_conv)
    show ?thesis
      using Inr cg cg' a hy hy' h ge ge' g
      by (simp add: retrieve_and_generate_result split: sum.splits)
  qed
qed

lemma deterministic_cached:
  assumes det: "deterministic_client cl"
  shows "fst (retrieve_and_generate_cached q cl n (snd (retrieve_and_generate_cached q cl n w)))
         = fst (retrieve_and_generate_cached q cl n w)"
proof (cases "cache w (q, n)")
  case (Some r)
  then show ?thesis by (simp add: retrieve_and_generate_cached_def)
next
  case None
  obtain res w1 where run: "retrieve_and_generate q cl n w = (res, w1)"
    by (cases "retrieve_and_generate q cl n w")
  have c1: "cache w1 = cache w"
    using cache_retrieve_and_generate [of q cl n w] run by simp
  show ?thesis
  proof (cases res)
    case (Inl e)
    have "fst (retrieve_and_generate q cl n w1) = Inl e"
      using deterministic_result [OF det, of q n w1 w] run Inl by simp
    then obtain w2 where "retrieve_and_generate q cl n w1 = (Inl e, w2)"
      by (cases "retrieve_and_generate q cl n w1") simp
    then show ?thesis
      using None run Inl c1 by (simp add: retrieve_and_generate_cached_def)
  next
    case (Inr r)
    then show ?thesis
      using None run by (simp add: retrieve_and_generate_cached_def)
  qed
qed


lemma stub_deterministic: "deterministic_client (stub_client found gen)"
  by (simp add: deterministic_client_def deterministic_collection_def stub_client_def stub_collection_def)

subsection \<open>Runs of the example scenario\<close>

lemmas stub_defs = stub_client_def stub_collection_def
lemmas run_defs = retrieve_and_generate_def call_collections_get_def call_hybrid_def
  call_near_text_def format_context_def context_entry_def source_entry_def subscript_def
lemmas text_defs = str_int_def str_nat.simps digit_char_def newline_def apostrophe_def

lemma election_run:
  "retrieve_and_generate election_question election_client 2 fresh_world
   = (Inr election_result, election_world)"
  by (simp add: run_defs stub_defs election_client_def fresh_world_def election_result_def
        election_world_def full_run_def election_chunk_def election_day_chunk_def
        election_answer_def)

lemma election_retrieved:
  "retrieved_objects election_question election_client 2 fresh_world
   = [election_chunk, election_day_chunk]"
  by (simp add: retrieved_objects_def call_collections_get_def call_hybrid_def stub_defs
        election_client_def fresh_world_def)


subsection \<open>Claims\<close>



text \<open>
  C2, the run of the example scenario. The context is built from the two retrieved chunks,
  and the only generation request, \<open>generate.near_text\<close>, carries the question and the
  directive followed by the question: no chunk and no context. The request is the same
  when the hybrid search returns another list of chunks. What the answer is grounded in is
  left to the search that the backend runs for \<open>near_text\<close>.
\<close>

theorem generation_request_carries_no_chunk:
  "format_context (retrieved_objects election_question election_client 2 fresh_world)
     = Inr election_context
   \<and> requests (snd (retrieve_and_generate election_question election_client 2 fresh_world))
     = [CollectionsGet ''WikiChunk'',
        Hybrid election_question 2 [''distance''] [''title'', ''chunk'', ''chunk_number''],
        GenerateNearText election_question (grounding_directive @ election_question)]
   \<and> requests (snd (retrieve_and_generate election_question election_day_client 2 fresh_world))
     = [CollectionsGet ''WikiChunk'',
        Hybrid election_question 2 [''distance''] [''title'', ''chunk'', ''chunk_number''],
        GenerateNearText election_question (grounding_directive @ election_question)]
   \<and> retrieved_objects election_question election_day_client 2 fresh_world
     = [election_day_chunk]"
proof -
  have "format_context [election_chunk, election_day_chunk] = Inr election_context"
    by (simp add: format_context_def context_entry_def subscript_def election_chunk_def
          election_day_chunk_def election_context_def text_defs)
  moreover have "requests (snd (retrieve_and_generate election_question election_day_client 2
      fresh_world)) = full_run election_question 2"
    by (simp add: run_defs stub_defs election_day_client_def fresh_world_def full_run_def
          election_day_chunk_def)
  moreover have "retrieved_objects election_question election_day_client 2 fresh_world
     = [election_day_chunk]"
    by (simp add: retrieved_objects_def call_collections_get_def call_hybrid_def stub_defs
        election_day_client_def fresh_world_def)
  ultimately show ?thesis
    by (simp add: election_run election_retrieved election_world_def full_run_def)
qed



text \<open>
  C4. When the hybrid search raises \<open>e\<close>, \<open>retrieve_and_generate\<close> raises the same \<open>e\<close>:
  no default result stands in for it. The log of the call holds the collection lookup and
  one hybrid search (no retry), and no generation request. Under the cache decorator the
  call behaves the same when its key is not stored.
\<close>

theorem retrieval_failure_propagates:
  assumes "collections_get cl ''WikiChunk'' (backend_state w) = (Inr coll, s1)"
    and "hybrid coll q n [''distance''] [''title'', ''chunk'', ''chunk_number''] s1 = (Inl e, s2)"
  shows "retrieve_and_generate q cl n w =
           (Inl e, w\<lparr>backend_state := s2,
                     requests := requests w @
                       [CollectionsGet ''WikiChunk'',
                        Hybrid q n [''distance''] [''title'', ''chunk'', ''chunk_number'']]\<rparr>)
       \<and> (cache w (q, n) = None \<longrightarrow>
            retrieve_and_generate_cached q cl n w = retrieve_and_generate q cl n w)"
  using assms
  by (simp add: retrieve_and_generate_cached_def retrieve_and_generate_def
        call_collections_get_def call_hybrid_def)

text \<open>C4, at a stub whose hybrid search raises.\<close>

theorem retrieval_failure_propagates_witness:
  "collections_get failing_client ''WikiChunk'' (backend_state fresh_world)
     = (Inr failing_collection, ())
   \<and> hybrid failing_collection election_question 2 [''distance'']
        [''title'', ''chunk'', ''chunk_number''] ()
     = (Inl (BackendException ''connection reset''), ())
   \<and> cache fresh_world (election_question, 2) = None
   \<and> retrieve_and_generate election_question failing_client 2 fresh_world
     = (Inl (BackendException ''connection reset''),
        \<lparr>backend_state = (),
         requests = [CollectionsGet ''WikiChunk'',
                     Hybrid election_question 2 [''distance'']
                       [''title'', ''chunk'', ''chunk_number'']],
         cache = Map.empty\<rparr>)
   \<and> retrieve_and_generate_cached election_question failing_client 2 fresh_world
     = retrieve_and_generate election_question failing_client 2 fresh_world"
proof -
  have cg: "collections_get failing_client ''WikiChunk'' (backend_state fresh_world)
     = (Inr failing_collection, ())"
    by (simp add: failing_client_def failing_collection_def stub_client_def)
  have hy: "hybrid failing_collection election_question 2 [''distance'']
        [''title'', ''chunk'', ''chunk_number''] ()
     = (Inl (BackendException ''connection reset''), ())"
    by (simp add: failing_collection_def stub_collection_def)
  have c: "cache fresh_world (election_question, 2) = None"
    by (simp add: fresh_world_def)
  show ?thesis
    using retrieval_failure_propagates [OF cg hy] cg hy c
    by (simp add: fresh_world_def)
qed








text \<open>
  C7. For objects that have their three properties, the context built by lines 42 to 45 is
  the context block of the specification over the formatted title, chunk number and chunk
  text of each object, in the order of the objects: the label, a newline, the text, and a
  blank line between two records.
\<close>

theorem context_block_format:
  assumes "list_all has_chunk_fields objs"
  shows "format_context objs = Inr (context_block (map chunk_texts objs))"
  using assms by (rule format_context_fields)

text \<open>C7, at the two chunks of the example scenario, with the text written out.\<close>

theorem context_block_format_witness:
  "list_all has_chunk_fields [election_chunk, election_day_chunk]
   \<and> format_context [election_chunk, election_day_chunk]
     = Inr (context_block (map chunk_texts [election_chunk, election_day_chunk]))
   \<and> context_block (map chunk_texts [election_chunk, election_day_chunk]) = election_context"
proof -
  have wf: "list_all has_chunk_fields [election_chunk, election_day_chunk]"
    by (simp add: has_chunk_fields_def election_chunk_def election_day_chunk_def)
  have "context_block (map chunk_texts [election_chunk, election_day_chunk]) = election_context"
    by (simp add: chunk_texts_def chunk_label_def election_chunk_def election_day_chunk_def
          election_context_def text_defs)
  then show ?thesis
    using context_block_format [OF wf] wf by simp
qed



text \<open>
  C9. With a deterministic backend, a second call with the same question and the same
  \<open>num_chunks\<close>, made in the world that the first call left, gives the same outcome as the
  first: the same result, answer and sources, or the same exception. This holds for the
  body and for the function under its cache decorator.
\<close>

theorem deterministic_backend_same_result:
  assumes "deterministic_client cl"
  shows "fst (retrieve_and_generate q cl n (snd (retrieve_and_generate q cl n w)))
           = fst (retrieve_and_generate q cl n w)
       \<and> fst (retrieve_and_generate_cached q cl n (snd (retrieve_and_generate_cached q cl n w)))
           = fst (retrieve_and_generate_cached q cl n w)"
  using deterministic_result [OF assms] deterministic_cached [OF assms] by simp

text \<open>C9, at the stub of the example scenario.\<close>

theorem deterministic_backend_same_result_witness:
  "deterministic_client election_client
   \<and> fst (retrieve_and_generate election_question election_client 2
           (snd (retrieve_and_generate election_question election_client 2 fresh_world)))
     = fst (retrieve_and_generate election_question election_client 2 fresh_world)
   \<and> fst (retrieve_and_generate_cached election_question election_client 2
           (snd (retrieve_and_generate_cached election_question election_client 2 fresh_world)))
     = fst (retrieve_and_generate_cached election_question election_client 2 fresh_world)
   \<and> fst (retrieve_and_generate election_question election_client 2 fresh_world)
     = Inr election_result"
proof -
  have det: "deterministic_client election_client"
    unfolding election_client_def by (rule stub_deterministic)
  show ?thesis
    using deterministic_backend_same_result [OF det, of election_question 2 fresh_world] det
    by (simp add: election_run)
qed




end
